theory Spec2Isabelle
  imports Complex_Main
begin

section \<open>Values of the parsed document\<close>

text \<open>
  \<^verbatim>\<open>json.load\<close> returns Python values: \<^verbatim>\<open>None\<close>, \<^verbatim>\<open>bool\<close>, \<^verbatim>\<open>int\<close>,
  \<^verbatim>\<open>float\<close>, \<^verbatim>\<open>str\<close>, \<^verbatim>\<open>list\<close> and \<^verbatim>\<open>dict\<close>. A dict is held as the list of its
  items and read with \<open>map_of\<close>; only lookups by key are made on it. An \<^verbatim>\<open>int\<close> is
  unbounded. A \<^verbatim>\<open>float\<close> is a 64-bit float: a finite one is held as the rational it
  denotes, and the infinities and NaN, which \<^verbatim>\<open>json.load\<close> gives for \<^verbatim>\<open>1e400\<close>,
  \<^verbatim>\<open>-Infinity\<close> and \<^verbatim>\<open>NaN\<close>, are values of their own. The sign of a zero and the
  payload of a NaN are not kept.
\<close>

datatype float64 = Finite rat | PosInf | NegInf | NaN

datatype json =
    JNull
  | JBool bool
  | JInt int
  | JFloat float64
  | JStr string
  | JList "json list"
  | JDict "(string \<times> json) list"

datatype py_error =
  AttributeError | TypeError | KeyError | ValueError | OSError | OverflowError

type_synonym vec3 = "float64 \<times> float64 \<times> float64"

type_synonym row = "json \<times> json \<times> json"

text \<open>\<^verbatim>\<open>isinstance(v, (int, float))\<close>. In Python \<^verbatim>\<open>bool\<close> is a subclass of \<^verbatim>\<open>int\<close>.\<close>

fun isinstance_int_float :: "json \<Rightarrow> bool" where
  "isinstance_int_float (JBool b) = True"
| "isinstance_int_float (JInt i) = True"
| "isinstance_int_float (JFloat f) = True"
| "isinstance_int_float v = False"

text \<open>\<^verbatim>\<open>isinstance(v, dict)\<close> and \<^verbatim>\<open>isinstance(v, list)\<close>.\<close>

fun isinstance_dict :: "json \<Rightarrow> bool" where
  "isinstance_dict (JDict kvs) = True"
| "isinstance_dict v = False"

fun isinstance_list :: "json \<Rightarrow> bool" where
  "isinstance_list (JList xs) = True"
| "isinstance_list v = False"

text \<open>
  Truth value of a Python object, as \<^verbatim>\<open>not particles\<close> tests it. Of the floats only
  zero is false.
\<close>

fun truthy :: "json \<Rightarrow> bool" where
  "truthy JNull = False"
| "truthy (JBool b) = b"
| "truthy (JInt i) = (i \<noteq> 0)"
| "truthy (JFloat f) = (f \<noteq> Finite 0)"
| "truthy (JStr s) = (s \<noteq> [])"
| "truthy (JList xs) = (xs \<noteq> [])"
| "truthy (JDict kvs) = (kvs \<noteq> [])"

text \<open>\<^verbatim>\<open>obj.get(k, d)\<close>: only a dict has the method; any other value raises.\<close>

fun py_get :: "json \<Rightarrow> string \<Rightarrow> json \<Rightarrow> py_error + json" where
  "py_get (JDict kvs) k d = Inr (case map_of kvs k of None \<Rightarrow> d | Some v \<Rightarrow> v)"
| "py_get v k d = Inl AttributeError"

text \<open>\<^verbatim>\<open>obj[k]\<close> with a string key.\<close>

fun py_item :: "json \<Rightarrow> string \<Rightarrow> py_error + json" where
  "py_item (JDict kvs) k = (case map_of kvs k of None \<Rightarrow> Inl KeyError | Some v \<Rightarrow> Inr v)"
| "py_item v k = Inl TypeError"

text \<open>
  \<^verbatim>\<open>for p in obj\<close>: a list gives its elements, a dict its keys, a string its
  characters; \<^verbatim>\<open>None\<close> and numbers are not iterable.
\<close>

fun py_iter :: "json \<Rightarrow> py_error + json list" where
  "py_iter (JList xs) = Inr xs"
| "py_iter (JDict kvs) = Inr (map (\<lambda>kv. JStr (fst kv)) kvs)"
| "py_iter (JStr s) = Inr (map (\<lambda>c. JStr [c]) s)"
| "py_iter v = Inl TypeError"

text \<open>
  An f-string field \<^verbatim>\<open>{v:.2f}\<close> on a Python object. An \<^verbatim>\<open>int\<close> or \<^verbatim>\<open>bool\<close> is
  converted to a float first, and the conversion raises \<^verbatim>\<open>OverflowError\<close> for an
  \<^verbatim>\<open>int\<close> that rounds to \<open>2 ^ 1024\<close> or beyond, which are those of magnitude at least
  \<open>2 ^ 1024 - 2 ^ 970\<close>. Every float has a printed form. A string rejects the format
  code, every other value rejects any format string.
\<close>

definition int_overflows_float :: "int \<Rightarrow> bool" where
  "int_overflows_float i = (2 ^ 1024 - 2 ^ 970 \<le> \<bar>i\<bar>)"

fun format_2f :: "json \<Rightarrow> py_error + unit" where
  "format_2f (JBool b) = Inr ()"
| "format_2f (JInt i) = (if int_overflows_float i then Inl OverflowError else Inr ())"
| "format_2f (JFloat f) = Inr ()"
| "format_2f (JStr s) = Inl ValueError"
| "format_2f v = Inl TypeError"

section \<open>The loader\<close>

text \<open>
  \<^verbatim>\<open>load_simulation_data\<close>. Opening and parsing the file is the environment's part:
  the argument is what \<^verbatim>\<open>open\<close> followed by \<^verbatim>\<open>json.load\<close> gives, an exception or
  the parsed value. Every exception, the \<^verbatim>\<open>ValueError\<close> raised for a wrong top level
  included, ends in \<^verbatim>\<open>return None\<close>.
\<close>

definition load_simulation_data :: "py_error + json \<Rightarrow> json list option" where
  "load_simulation_data parsed =
     (case parsed of
        Inl e \<Rightarrow> None
      | Inr data \<Rightarrow>
          (case data of
             JList snapshots \<Rightarrow> (if length snapshots = 0 then None else Some snapshots)
           | _ \<Rightarrow> None))"

section \<open>Particle validation\<close>

text \<open>
  \<^verbatim>\<open>all(isinstance(obj.get(k), (int, float)) for k in keys)\<close>: the generator stops at
  the first key that fails, and \<^verbatim>\<open>obj.get\<close> raises when \<open>obj\<close> is no dict.
\<close>

fun all_numeric :: "json \<Rightarrow> string list \<Rightarrow> py_error + bool" where
  "all_numeric obj [] = Inr True"
| "all_numeric obj (k # ks) =
     (case py_get obj k JNull of
        Inl e \<Rightarrow> Inl e
      | Inr v \<Rightarrow> (if isinstance_int_float v then all_numeric obj ks else Inr False))"

text \<open>The body of the \<^verbatim>\<open>try\<close> block of \<^verbatim>\<open>validate_particle_data\<close>.\<close>

definition validate_body :: "json \<Rightarrow> py_error + bool" where
  "validate_body particle =
     (case py_get particle ''Position'' (JDict []) of
        Inl e \<Rightarrow> Inl e
      | Inr pos \<Rightarrow>
     (case py_get particle ''Velocity'' (JDict []) of
        Inl e \<Rightarrow> Inl e
      | Inr vel \<Rightarrow>
     (case all_numeric pos [''X'', ''Y'', ''Z''] of
        Inl e \<Rightarrow> Inl e
      | Inr okp \<Rightarrow>
          if \<not> okp then Inr False
          else
     (case all_numeric vel [''X'', ''Y'', ''Z''] of
        Inl e \<Rightarrow> Inl e
      | Inr okv \<Rightarrow>
          if \<not> okv then Inr False
          else
     (case py_get particle ''Temperature'' JNull of
        Inl e \<Rightarrow> Inl e
      | Inr t \<Rightarrow> if \<not> isinstance_int_float t then Inr False else Inr True)))))"

text \<open>\<^verbatim>\<open>validate_particle_data\<close>: \<^verbatim>\<open>except Exception: return False\<close>.\<close>

definition validate_particle_data :: "json \<Rightarrow> bool" where
  "validate_particle_data particle =
     (case validate_body particle of Inl e \<Rightarrow> False | Inr b \<Rightarrow> b)"

section \<open>The reduction\<close>

text \<open>
  One row \<^verbatim>\<open>[p[g]['X'], p[g]['Y'], p[g]['Z']]\<close> of the list handed to \<^verbatim>\<open>np.array\<close> for
  the group \<open>g\<close> (\<^verbatim>\<open>'Position'\<close> or \<^verbatim>\<open>'Velocity'\<close>): the three Python values as they are.
\<close>

definition np_row :: "string \<Rightarrow> json \<Rightarrow> py_error + row" where
  "np_row g p =
     (case py_item p g of
        Inl e \<Rightarrow> Inl e
      | Inr grp \<Rightarrow>
     (case py_item grp ''X'' of Inl e \<Rightarrow> Inl e | Inr x \<Rightarrow>
     (case py_item grp ''Y'' of Inl e \<Rightarrow> Inl e | Inr y \<Rightarrow>
     (case py_item grp ''Z'' of Inl e \<Rightarrow> Inl e | Inr z \<Rightarrow> Inr (x, y, z)))))"

text \<open>The list comprehension inside \<^verbatim>\<open>np.array([... for p in valid_particles])\<close>.\<close>

fun np_rows :: "string \<Rightarrow> json list \<Rightarrow> py_error + row list" where
  "np_rows g [] = Inr []"
| "np_rows g (p # ps) =
     (case np_row g p of
        Inl e \<Rightarrow> Inl e
      | Inr r \<Rightarrow> (case np_rows g ps of Inl e \<Rightarrow> Inl e | Inr rs \<Rightarrow> Inr (r # rs)))"

text \<open>
  \<^verbatim>\<open>np.array(rows).mean(axis=0)\<close> is numpy's work, not the program's. It is done in
  64-bit floats: an entry \<^verbatim>\<open>True\<close> counts 1 and \<^verbatim>\<open>False\<close> 0, an \<^verbatim>\<open>int\<close> or a
  \<^verbatim>\<open>float\<close> its value; each column is added up and divided by the number of rows, and
  each operation rounds its result to a float.

  The model fixes the outcome where no operation can round, in whatever order the
  additions are made. That is the case when the entries of a column are finite numbers
  \<open>m / 2 ^ k\<close> for one \<open>k\<close> up to 1074 whose magnitudes add up to at most \<open>2 ^ 53 / 2 ^ k\<close>,
  so that every partial sum is a float, and the quotient by the number of rows is again
  such a number: then the mean is this quotient. For every other array (a mean that is
  rounded or infinite, a NaN, an \<^verbatim>\<open>int\<close> beyond the floats, for which the division
  raises) the outcome is the parameter \<open>np_mean\<close>: a triple of floats or an exception.
\<close>

text \<open>The number an entry counts as, when it is a \<^verbatim>\<open>bool\<close>, an \<^verbatim>\<open>int\<close> or a finite float.\<close>

fun np_number :: "json \<Rightarrow> rat option" where
  "np_number (JBool b) = Some (if b then 1 else 0)"
| "np_number (JInt i) = Some (of_int i)"
| "np_number (JFloat (Finite r)) = Some r"
| "np_number v = None"

text \<open>
  For some \<open>k\<close> up to 1074 every number of the list is an integer multiple of
  \<open>1 / 2 ^ k\<close> and the magnitudes add up to at most \<open>2 ^ 53\<close> such units: the numbers
  and all their partial sums are floats. On a list of one number this says that the
  number is a float with at most 53 bits.
\<close>

definition exact_sum :: "rat list \<Rightarrow> bool" where
  "exact_sum xs =
     list_ex (\<lambda>k. list_all (\<lambda>x. of_int \<lfloor>x * 2 ^ k\<rfloor> = x * 2 ^ k) xs \<and>
                  sum_list (map abs xs) * 2 ^ k \<le> 2 ^ 53) [0..<1075]"

text \<open>
  Neither the sum of a column nor its quotient by the number of rows is rounded; the
  number of rows is itself a float.
\<close>

definition exact_mean :: "rat list \<Rightarrow> bool" where
  "exact_mean xs =
     (0 < length xs \<and> length xs \<le> 2 ^ 53 \<and> exact_sum xs \<and>
      exact_sum [sum_list xs / of_nat (length xs)])"

text \<open>
  The mean of one column where it is exact, and \<^verbatim>\<open>.mean(axis=0)\<close> of the array: the
  three exact column means, or else what numpy gives for these rows.
\<close>

definition exact_column :: "json list \<Rightarrow> rat option" where
  "exact_column vs =
     (case those (map np_number vs) of
        None \<Rightarrow> None
      | Some xs \<Rightarrow> if exact_mean xs then Some (sum_list xs / of_nat (length xs)) else None)"

definition mean_axis0 :: "(row list \<Rightarrow> py_error + vec3) \<Rightarrow> row list \<Rightarrow> py_error + vec3" where
  "mean_axis0 np_mean rows =
     (case exact_column (map (\<lambda>r. fst r) rows) of
        None \<Rightarrow> np_mean rows
      | Some x \<Rightarrow>
     (case exact_column (map (\<lambda>r. fst (snd r)) rows) of
        None \<Rightarrow> np_mean rows
      | Some y \<Rightarrow>
     (case exact_column (map (\<lambda>r. snd (snd r)) rows) of
        None \<Rightarrow> np_mean rows
      | Some z \<Rightarrow> Inr (Finite x, Finite y, Finite z))))"

text \<open>
  The loop body of \<^verbatim>\<open>analyze_flow_field\<close> up to the two averages: \<open>Inr None\<close> is a
  \<^verbatim>\<open>continue\<close>, \<open>Inr (Some (timestamp, avg_pos, avg_vel))\<close> the triple to append, \<open>Inl\<close>
  an exception that leaves the loop. The source builds the position array before it
  reads the velocity rows; here both lists of rows are read first, and \<open>np_mean\<close> stands
  for building an array and taking its mean. Every exception of the body ends in the one
  handler of \<^verbatim>\<open>analyze_flow_field\<close>, which does not look at it.
\<close>

definition snapshot_mean ::
  "(row list \<Rightarrow> py_error + vec3) \<Rightarrow> json \<Rightarrow> py_error + (json \<times> vec3 \<times> vec3) option" where
  "snapshot_mean np_mean snapshot =
     (if \<not> isinstance_dict snapshot then Inr None
      else
     (case py_get snapshot ''Timestamp'' (JInt 0) of
        Inl e \<Rightarrow> Inl e
      | Inr timestamp \<Rightarrow>
     (case py_get snapshot ''Particles'' (JList []) of
        Inl e \<Rightarrow> Inl e
      | Inr particles \<Rightarrow>
          if \<not> truthy particles then Inr None
          else
     (case py_iter particles of
        Inl e \<Rightarrow> Inl e
      | Inr ps \<Rightarrow>
          (let valid_particles = filter validate_particle_data ps in
           if valid_particles = [] then Inr None
           else
     (case np_rows ''Position'' valid_particles of
        Inl e \<Rightarrow> Inl e
      | Inr position_rows \<Rightarrow>
     (case np_rows ''Velocity'' valid_particles of
        Inl e \<Rightarrow> Inl e
      | Inr velocity_rows \<Rightarrow>
     (case mean_axis0 np_mean position_rows of
        Inl e \<Rightarrow> Inl e
      | Inr avg_pos \<Rightarrow>
     (case mean_axis0 np_mean velocity_rows of
        Inl e \<Rightarrow> Inl e
      | Inr avg_vel \<Rightarrow> Inr (Some (timestamp, avg_pos, avg_vel)))))))))))"

text \<open>The three lists the loop appends to, and the dict that is returned.\<close>

record series =
  times :: "json list"
  velocities :: "vec3 list"
  positions :: "vec3 list"

definition empty_series :: series where
  "empty_series = \<lparr>times = [], velocities = [], positions = []\<rparr>"

text \<open>
  One iteration, for the snapshot at index \<open>i\<close> of \<open>n\<close>. After the three appends the
  first and the last snapshot print the timestamp with \<^verbatim>\<open>{timestamp:.2f}\<close>, which
  raises for a timestamp that has no such form; the averages printed beside it are
  floats.
\<close>

definition loop_body ::
  "(row list \<Rightarrow> py_error + vec3) \<Rightarrow> nat \<Rightarrow> nat \<Rightarrow> json \<Rightarrow> series \<Rightarrow> py_error + series" where
  "loop_body np_mean n i snapshot acc =
     (case snapshot_mean np_mean snapshot of
        Inl e \<Rightarrow> Inl e
      | Inr None \<Rightarrow> Inr acc
      | Inr (Some (timestamp, avg_pos, avg_vel)) \<Rightarrow>
          (let acc' = acc\<lparr>times := times acc @ [timestamp],
                          positions := positions acc @ [avg_pos],
                          velocities := velocities acc @ [avg_vel]\<rparr>
           in if i = 0 \<or> int i = int n - 1
              then (case format_2f timestamp of Inl e \<Rightarrow> Inl e | Inr u \<Rightarrow> Inr acc')
              else Inr acc'))"

text \<open>\<^verbatim>\<open>for i, snapshot in enumerate(data)\<close>, from index \<open>i\<close> on.\<close>

fun loop ::
  "(row list \<Rightarrow> py_error + vec3) \<Rightarrow> nat \<Rightarrow> nat \<Rightarrow> json list \<Rightarrow> series \<Rightarrow> py_error + series"
  where
  "loop np_mean n i [] acc = Inr acc"
| "loop np_mean n i (snapshot # rest) acc =
     (case loop_body np_mean n i snapshot acc of
        Inl e \<Rightarrow> Inl e
      | Inr acc' \<Rightarrow> loop np_mean n (Suc i) rest acc')"

text \<open>
  A timestamp that \<^verbatim>\<open>np.array\<close> stores as a number of its own: a \<^verbatim>\<open>bool\<close>, a
  \<^verbatim>\<open>float\<close>, or an \<^verbatim>\<open>int\<close> that fits 64 bits.
\<close>

fun plain_number :: "json \<Rightarrow> bool" where
  "plain_number (JBool b) = True"
| "plain_number (JInt i) = (- (2 ^ 63) \<le> i \<and> i < 2 ^ 63)"
| "plain_number (JFloat f) = True"
| "plain_number v = False"

text \<open>
  \<^verbatim>\<open>analyze_flow_field\<close>. Every \<^verbatim>\<open>return None\<close> and the \<^verbatim>\<open>except Exception\<close>
  handler give \<open>None\<close>; the printed diagnostics are not modelled, only the exceptions
  their format fields can raise.

  After the loop the three lists become arrays and a summary is printed with
  \<^verbatim>\<open>{times[0]:.2f}\<close> and \<^verbatim>\<open>{times[-1]:.2f}\<close>. When every collected timestamp is a
  plain number the array of times is a numeric one, its elements have the printed form,
  and the function returns; the arrays hold the values of the lists as numbers of one
  dtype (a \<^verbatim>\<open>True\<close> beside an \<^verbatim>\<open>int\<close> is stored as 1), and the model returns the lists.
  When some timestamp is another kind of value, or an \<^verbatim>\<open>int\<close> beyond 64 bits, whether
  \<^verbatim>\<open>np.array\<close> and the two format fields raise depends on how numpy stores the list,
  which is not in the source: \<open>np_ok\<close> is that outcome, a parameter.
\<close>

definition analyze_flow_field ::
  "(json list \<Rightarrow> bool) \<Rightarrow> (row list \<Rightarrow> py_error + vec3) \<Rightarrow> json list \<Rightarrow> series option" where
  "analyze_flow_field np_ok np_mean data =
     (if data = [] \<or> length data < 2 then None
      else
        (case loop np_mean (length data) 0 data empty_series of
           Inl e \<Rightarrow> None
         | Inr acc \<Rightarrow>
             if length (times acc) < 2 then None
             else if list_all plain_number (times acc) \<or> np_ok (times acc)
             then Some acc
             else None))"

section \<open>Notions the statements are written in\<close>

text \<open>The value under key \<open>k\<close> of \<open>obj\<close>, when \<open>obj\<close> is a dict that has the key.\<close>

definition lookup :: "json \<Rightarrow> string \<Rightarrow> json option" where
  "lookup obj k = (case obj of JDict kvs \<Rightarrow> map_of kvs k | _ \<Rightarrow> None)"

text \<open>The field \<open>k\<close> of the sub-object \<open>g\<close> of a particle, as in \<^verbatim>\<open>Position.X\<close>.\<close>

definition field2 :: "json \<Rightarrow> string \<Rightarrow> string \<Rightarrow> json option" where
  "field2 p g k = (case lookup p g of None \<Rightarrow> None | Some grp \<Rightarrow> lookup grp k)"

text \<open>
  A field that is present and passes the test of the source,
  \<^verbatim>\<open>isinstance(v, (int, float))\<close>: the form in which the lemmas on the code speak of it.
\<close>

definition field_passes :: "json option \<Rightarrow> bool" where
  "field_passes f = (case f of None \<Rightarrow> False | Some v \<Rightarrow> isinstance_int_float v)"

text \<open>
  A field that is present and numeric in the sense of the specification, a number: an
  \<^verbatim>\<open>int\<close> or a \<^verbatim>\<open>float\<close>. And the seven fields of a particle being so.
\<close>

definition json_number :: "json option \<Rightarrow> bool" where
  "json_number f =
     (case f of
        Some (JInt i) \<Rightarrow> True
      | Some (JFloat x) \<Rightarrow> True
      | _ \<Rightarrow> False)"

definition seven_fields_number :: "json \<Rightarrow> bool" where
  "seven_fields_number p =
     (json_number (field2 p ''Position'' ''X'') \<and>
      json_number (field2 p ''Position'' ''Y'') \<and>
      json_number (field2 p ''Position'' ''Z'') \<and>
      json_number (field2 p ''Velocity'' ''X'') \<and>
      json_number (field2 p ''Velocity'' ''Y'') \<and>
      json_number (field2 p ''Velocity'' ''Z'') \<and>
      json_number (lookup p ''Temperature''))"

text \<open>A field that is present and holds an \<^verbatim>\<open>int\<close>, a \<^verbatim>\<open>float\<close> or a \<^verbatim>\<open>bool\<close>.\<close>

definition int_float_or_bool :: "json option \<Rightarrow> bool" where
  "int_float_or_bool f =
     (case f of
        Some (JInt i) \<Rightarrow> True
      | Some (JFloat x) \<Rightarrow> True
      | Some (JBool b) \<Rightarrow> True
      | _ \<Rightarrow> False)"

definition seven_fields_int_float_or_bool :: "json \<Rightarrow> bool" where
  "seven_fields_int_float_or_bool p =
     (int_float_or_bool (field2 p ''Position'' ''X'') \<and>
      int_float_or_bool (field2 p ''Position'' ''Y'') \<and>
      int_float_or_bool (field2 p ''Position'' ''Z'') \<and>
      int_float_or_bool (field2 p ''Velocity'' ''X'') \<and>
      int_float_or_bool (field2 p ''Velocity'' ''Y'') \<and>
      int_float_or_bool (field2 p ''Velocity'' ''Z'') \<and>
      int_float_or_bool (lookup p ''Temperature''))"

text \<open>
  The number a value counts as in an average: 1 for \<^verbatim>\<open>True\<close>, 0 for \<^verbatim>\<open>False\<close>, an
  \<^verbatim>\<open>int\<close> or a finite \<^verbatim>\<open>float\<close> itself. And the coordinate \<open>g.k\<close> of a particle as
  such a number.
\<close>

definition numeric_value :: "json \<Rightarrow> rat" where
  "numeric_value v =
     (case v of
        JBool b \<Rightarrow> (if b then 1 else 0)
      | JInt i \<Rightarrow> of_int i
      | JFloat (Finite r) \<Rightarrow> r
      | _ \<Rightarrow> 0)"

definition coordinate :: "json \<Rightarrow> string \<Rightarrow> string \<Rightarrow> rat" where
  "coordinate p g k = (case field2 p g k of None \<Rightarrow> 0 | Some v \<Rightarrow> numeric_value v)"

text \<open>A field that is a \<^verbatim>\<open>bool\<close>, an \<^verbatim>\<open>int\<close> or a finite \<^verbatim>\<open>float\<close>.\<close>

definition finite_number :: "json option \<Rightarrow> bool" where
  "finite_number f =
     (case f of
        Some (JBool b) \<Rightarrow> True
      | Some (JInt i) \<Rightarrow> True
      | Some (JFloat (Finite r)) \<Rightarrow> True
      | _ \<Rightarrow> False)"

text \<open>
  Float arithmetic is exact on the coordinates of the group \<open>g\<close> of the particles \<open>qs\<close>:
  they are finite numbers, and per X, Y and Z neither their sum nor its quotient by the
  count is rounded.
\<close>

definition exact_coordinates :: "string \<Rightarrow> json list \<Rightarrow> bool" where
  "exact_coordinates g qs =
     (list_all (\<lambda>q. finite_number (field2 q g ''X'')) qs \<and>
      list_all (\<lambda>q. finite_number (field2 q g ''Y'')) qs \<and>
      list_all (\<lambda>q. finite_number (field2 q g ''Z'')) qs \<and>
      exact_mean (map (\<lambda>q. coordinate q g ''X'') qs) \<and>
      exact_mean (map (\<lambda>q. coordinate q g ''Y'') qs) \<and>
      exact_mean (map (\<lambda>q. coordinate q g ''Z'') qs))"

text \<open>Sum divided by count, and the same per X, Y and Z over a list of particles.\<close>

definition arithmetic_mean :: "rat list \<Rightarrow> rat" where
  "arithmetic_mean xs = sum_list xs / of_nat (length xs)"

definition mean_vector :: "string \<Rightarrow> json list \<Rightarrow> vec3" where
  "mean_vector g ps =
     (Finite (arithmetic_mean (map (\<lambda>p. coordinate p g ''X'') ps)),
      Finite (arithmetic_mean (map (\<lambda>p. coordinate p g ''Y'') ps)),
      Finite (arithmetic_mean (map (\<lambda>p. coordinate p g ''Z'') ps)))"

text \<open>The three values that a particle gives to a row, \<^verbatim>\<open>None\<close> for an absent one.\<close>

definition field_or_null :: "json \<Rightarrow> string \<Rightarrow> string \<Rightarrow> json" where
  "field_or_null p g k = (case field2 p g k of None \<Rightarrow> JNull | Some v \<Rightarrow> v)"

definition raw_row :: "string \<Rightarrow> json \<Rightarrow> row" where
  "raw_row g p = (field_or_null p g ''X'', field_or_null p g ''Y'', field_or_null p g ''Z'')"

text \<open>The timestamp of a snapshot, 0 when the key is absent.\<close>

definition timestamp_of :: "json \<Rightarrow> json" where
  "timestamp_of snapshot = (case lookup snapshot ''Timestamp'' of None \<Rightarrow> JInt 0 | Some t \<Rightarrow> t)"

text \<open>
  The triple a snapshot contributes, if it does; a snapshot yields a mean when it
  contributes one; the triples of a sequence of snapshots, in the order of the sequence.
\<close>

definition mean_entry ::
  "(row list \<Rightarrow> py_error + vec3) \<Rightarrow> json \<Rightarrow> (json \<times> vec3 \<times> vec3) option" where
  "mean_entry np_mean snapshot =
     (case snapshot_mean np_mean snapshot of Inl e \<Rightarrow> None | Inr r \<Rightarrow> r)"

definition yields_mean :: "(row list \<Rightarrow> py_error + vec3) \<Rightarrow> json \<Rightarrow> bool" where
  "yields_mean np_mean snapshot =
     (case mean_entry np_mean snapshot of None \<Rightarrow> False | Some e \<Rightarrow> True)"

definition entries ::
  "(row list \<Rightarrow> py_error + vec3) \<Rightarrow> json list \<Rightarrow> (json \<times> vec3 \<times> vec3) list" where
  "entries np_mean ss = List.map_filter (mean_entry np_mean) ss"

text \<open>Records of the input document, written as the parser returns them.\<close>

definition particle_json ::
  "json \<Rightarrow> json \<Rightarrow> json \<Rightarrow> json \<Rightarrow> json \<Rightarrow> json \<Rightarrow> json \<Rightarrow> json" where
  "particle_json px py pz vx vy vz t =
     JDict [(''Position'', JDict [(''X'', px), (''Y'', py), (''Z'', pz)]),
            (''Velocity'', JDict [(''X'', vx), (''Y'', vy), (''Z'', vz)]),
            (''Temperature'', t)]"

definition snapshot_json :: "json \<Rightarrow> json list \<Rightarrow> json" where
  "snapshot_json t ps = JDict [(''Timestamp'', t), (''Particles'', JList ps)]"

text \<open>
  A particle at position \<open>(x, 0, 0)\<close> with velocity \<open>(1, 0, 0)\<close> and temperature 300, and
  two input sequences built from it: one whose timestamps are 5, 9, 3 and whose middle
  snapshot lists no particle, and one whose second snapshot has only a particle with a
  temperature that is a string.
\<close>

definition scenario_particle :: "int \<Rightarrow> json" where
  "scenario_particle x =
     particle_json (JInt x) (JInt 0) (JInt 0) (JInt 1) (JInt 0) (JInt 0) (JInt 300)"

definition out_of_order_input :: "json list" where
  "out_of_order_input =
     [snapshot_json (JInt 5) [scenario_particle 0],
      snapshot_json (JInt 9) [],
      snapshot_json (JInt 3) [scenario_particle 1]]"

definition one_valid_one_invalid :: "json list" where
  "one_valid_one_invalid =
     [snapshot_json (JInt 0) [scenario_particle 0],
      snapshot_json (JInt 1)
        [particle_json (JInt 1) (JInt 0) (JInt 0) (JInt 1) (JInt 0) (JInt 0) (JStr ''hot'')]]"

text \<open>
  A snapshot of three particles: one whose fields are booleans, floats and ints, one of
  ints, and one that is not valid because its temperature is absent.
\<close>

definition boolean_particle :: json where
  "boolean_particle =
     particle_json (JBool True) (JBool False) (JInt 2)
       (JFloat (Finite (1 / 2))) (JBool True) (JInt 0) (JBool True)"


definition no_temperature_particle :: json where
  "no_temperature_particle =
     JDict [(''Position'', JDict [(''X'', JInt 8), (''Y'', JInt 8), (''Z'', JInt 8)]),
            (''Velocity'', JDict [(''X'', JInt 8), (''Y'', JInt 8), (''Z'', JInt 8)])]"


section \<open>Lookups\<close>

lemma py_get_lookup:
  "py_get v k d =
     (if isinstance_dict v then Inr (case lookup v k of None \<Rightarrow> d | Some x \<Rightarrow> x)
      else Inl AttributeError)"
  by (cases v) (simp_all add: lookup_def)

lemma py_item_lookup:
  "py_item v k =
     (case lookup v k of
        Some x \<Rightarrow> Inr x
      | None \<Rightarrow> if isinstance_dict v then Inl KeyError else Inl TypeError)"
  by (cases v) (simp_all add: lookup_def split: option.splits)

lemma lookup_empty: "lookup (JDict []) k = None"
  by (simp add: lookup_def)

lemma lookup_nondict: "\<not> isinstance_dict v \<Longrightarrow> lookup v k = None"
  by (cases v) (simp_all add: lookup_def)

lemma field_passes_None: "field_passes None = False"
  by (simp add: field_passes_def)

lemma field_passes_Some: "field_passes (Some v) = isinstance_int_float v"
  by (simp add: field_passes_def)

lemma all_numeric_xyz:
  "all_numeric v [''X'', ''Y'', ''Z''] =
     (if isinstance_dict v
      then Inr (field_passes (lookup v ''X'') \<and> field_passes (lookup v ''Y'') \<and>
                field_passes (lookup v ''Z''))
      else Inl AttributeError)"
  by (cases v)
     (simp_all add: lookup_def field_passes_None field_passes_Some
        split: option.splits)

section \<open>Validation\<close>

lemma validate_passes:
  "validate_particle_data p \<longleftrightarrow>
     field_passes (field2 p ''Position'' ''X'') \<and>
     field_passes (field2 p ''Position'' ''Y'') \<and>
     field_passes (field2 p ''Position'' ''Z'') \<and>
     field_passes (field2 p ''Velocity'' ''X'') \<and>
     field_passes (field2 p ''Velocity'' ''Y'') \<and>
     field_passes (field2 p ''Velocity'' ''Z'') \<and>
     field_passes (lookup p ''Temperature'')"
proof (cases "isinstance_dict p")
  case False
  then show ?thesis
    by (simp add: validate_particle_data_def validate_body_def py_get_lookup
        field2_def lookup_nondict field_passes_None)
next
  case True
  show ?thesis
  proof (cases "lookup p ''Position''")
    case None
    with True show ?thesis
      by (simp add: validate_particle_data_def validate_body_def py_get_lookup
        all_numeric_xyz field2_def lookup_empty
        field_passes_None split: option.splits)
  next
    case (Some pos)
    note P = this
    show ?thesis
    proof (cases "lookup p ''Velocity''")
      case None
      with True P show ?thesis
        by (simp add: validate_particle_data_def validate_body_def py_get_lookup
          all_numeric_xyz field2_def lookup_nondict
          lookup_empty field_passes_None split: option.splits)
    next
      case (Some vel)
      with True P show ?thesis
        by (simp add: validate_particle_data_def validate_body_def py_get_lookup
          all_numeric_xyz field2_def lookup_nondict
          field_passes_None field_passes_Some split: option.splits)
    qed
  qed
qed

lemma field_passes_field2:
  assumes "field_passes (field2 p g k)"
  shows "\<exists>grp v. lookup p g = Some grp \<and> lookup grp k = Some v \<and> isinstance_int_float v"
proof (cases "lookup p g")
  case None
  with assms show ?thesis by (simp add: field2_def field_passes_None)
next
  case (Some grp)
  show ?thesis
  proof (cases "lookup grp k")
    case None
    with Some assms show ?thesis by (simp add: field2_def field_passes_None)
  next
    case (Some v)
    with \<open>lookup p g = Some grp\<close> assms show ?thesis
      by (simp add: field2_def field_passes_Some)
  qed
qed

lemma np_row_fields:
  assumes "field_passes (field2 p g ''X'')" "field_passes (field2 p g ''Y'')"
    "field_passes (field2 p g ''Z'')"
  shows "np_row g p = Inr (raw_row g p)"
proof -
  from field_passes_field2 [OF assms(1)] obtain grp jx where
    G: "lookup p g = Some grp" and JX: "lookup grp ''X'' = Some jx"
    by blast
  from field_passes_field2 [OF assms(2)] G obtain jy where
    JY: "lookup grp ''Y'' = Some jy"
    by auto
  from field_passes_field2 [OF assms(3)] G obtain jz where
    JZ: "lookup grp ''Z'' = Some jz"
    by auto
  have I: "py_item p g = Inr grp" "py_item grp ''X'' = Inr jx" "py_item grp ''Y'' = Inr jy"
    "py_item grp ''Z'' = Inr jz"
    by (simp_all add: py_item_lookup G JX JY JZ)
  have C: "raw_row g p = (jx, jy, jz)"
    by (simp add: raw_row_def field_or_null_def field2_def G JX JY JZ)
  show ?thesis
    by (simp add: np_row_def I C)
qed

lemma np_row_valid:
  assumes "validate_particle_data p" "g = ''Position'' \<or> g = ''Velocity''"
  shows "np_row g p = Inr (raw_row g p)"
  using assms by (auto simp: validate_passes intro!: np_row_fields)

lemma np_rows_valid:
  assumes "list_all validate_particle_data ps" "g = ''Position'' \<or> g = ''Velocity''"
  shows "np_rows g ps = Inr (map (raw_row g) ps)"
  using assms by (induction ps) (simp_all add: np_row_valid)

section \<open>Exact means\<close>

lemma exact_sumI:
  assumes "k \<le> 1074" and "list_all (\<lambda>x. of_int \<lfloor>x * 2 ^ k\<rfloor> = x * 2 ^ k) xs"
    and "sum_list (map abs xs) * 2 ^ k \<le> 2 ^ 53"
  shows "exact_sum xs"
proof -
  from assms(1) have "k \<in> set [0..<1075]" by simp
  with assms(2,3) show ?thesis
    unfolding exact_sum_def list_ex_iff by blast
qed

lemma exact_mean_int: "\<bar>i\<bar> \<le> 2 ^ 53 \<Longrightarrow> exact_mean [of_int i]"
proof -
  assume "\<bar>i\<bar> \<le> 2 ^ 53"
  then have "(of_int \<bar>i\<bar> :: rat) \<le> of_int (2 ^ 53)"
    by (simp only: of_int_le_iff)
  then have B: "\<bar>of_int i :: rat\<bar> \<le> 2 ^ 53"
    by simp
  have "exact_sum [of_int i :: rat]"
    by (rule exact_sumI [of 0]) (use B in simp_all)
  then show ?thesis
    by (simp add: exact_mean_def)
qed

lemma np_number_finite:
  assumes "finite_number (field2 q g k)"
  shows "np_number (field_or_null q g k) = Some (coordinate q g k)"
proof (cases "field2 q g k")
  case None
  with assms show ?thesis by (simp add: finite_number_def)
next
  case (Some v)
  show ?thesis
  proof (cases v)
    case (JFloat f)
    with Some assms show ?thesis
      by (cases f)
         (simp_all add: finite_number_def field_or_null_def coordinate_def numeric_value_def)
  qed (use Some assms in
        \<open>simp_all add: finite_number_def field_or_null_def coordinate_def numeric_value_def\<close>)
qed

lemma those_np_number:
  assumes "list_all (\<lambda>q. finite_number (field2 q g k)) qs"
  shows "those (map np_number (map (\<lambda>q. field_or_null q g k) qs)) =
         Some (map (\<lambda>q. coordinate q g k) qs)"
  using assms by (induction qs) (simp_all add: np_number_finite)

lemma exact_column_coordinates:
  assumes "list_all (\<lambda>q. finite_number (field2 q g k)) qs"
    and "exact_mean (map (\<lambda>q. coordinate q g k) qs)"
  shows "exact_column (map (\<lambda>q. field_or_null q g k) qs) =
         Some (arithmetic_mean (map (\<lambda>q. coordinate q g k) qs))"
  unfolding exact_column_def those_np_number [OF assms(1)]
  using assms(2) by (simp add: arithmetic_mean_def)

lemma mean_axis0_exact:
  assumes "exact_coordinates g qs"
  shows "mean_axis0 np_mean (map (raw_row g) qs) = Inr (mean_vector g qs)"
proof -
  have M: "map (\<lambda>r. fst r) (map (raw_row g) qs) = map (\<lambda>q. field_or_null q g ''X'') qs"
    "map (\<lambda>r. fst (snd r)) (map (raw_row g) qs) = map (\<lambda>q. field_or_null q g ''Y'') qs"
    "map (\<lambda>r. snd (snd r)) (map (raw_row g) qs) = map (\<lambda>q. field_or_null q g ''Z'') qs"
    by (simp_all add: raw_row_def)
  from assms have
    X: "exact_column (map (\<lambda>q. field_or_null q g ''X'') qs) =
        Some (arithmetic_mean (map (\<lambda>q. coordinate q g ''X'') qs))" and
    Y: "exact_column (map (\<lambda>q. field_or_null q g ''Y'') qs) =
        Some (arithmetic_mean (map (\<lambda>q. coordinate q g ''Y'') qs))" and
    Z: "exact_column (map (\<lambda>q. field_or_null q g ''Z'') qs) =
        Some (arithmetic_mean (map (\<lambda>q. coordinate q g ''Z'') qs))"
    by (simp_all add: exact_coordinates_def exact_column_coordinates)
  show ?thesis
    by (simp only: mean_axis0_def M X Y Z mean_vector_def option.case)
qed

section \<open>One snapshot, and the loop over the snapshots\<close>

lemma snapshot_mean_list:
  assumes "py_get snapshot ''Particles'' (JList []) = Inr (JList ps)"
    and "filter validate_particle_data ps \<noteq> []"
  shows "snapshot_mean np_mean snapshot =
         (case mean_axis0 np_mean (map (raw_row ''Position'') (filter validate_particle_data ps)) of
            Inl e \<Rightarrow> Inl e
          | Inr a \<Rightarrow>
         (case mean_axis0 np_mean (map (raw_row ''Velocity'') (filter validate_particle_data ps)) of
            Inl e \<Rightarrow> Inl e
          | Inr b \<Rightarrow> Inr (Some (timestamp_of snapshot, a, b))))"
proof -
  from assms(1) have D: "isinstance_dict snapshot"
    by (cases snapshot) simp_all
  have T: "py_get snapshot ''Timestamp'' (JInt 0) = Inr (timestamp_of snapshot)"
    using D by (simp add: py_get_lookup timestamp_of_def)
  from assms(2) have N: "ps \<noteq> []"
    by auto
  have V: "list_all validate_particle_data (filter validate_particle_data ps)"
    by (simp add: list_all_iff)
  have RP: "np_rows ''Position'' (filter validate_particle_data ps) =
      Inr (map (raw_row ''Position'') (filter validate_particle_data ps))"
    using V by (rule np_rows_valid) simp
  have RV: "np_rows ''Velocity'' (filter validate_particle_data ps) =
      Inr (map (raw_row ''Velocity'') (filter validate_particle_data ps))"
    using V by (rule np_rows_valid) simp
  show ?thesis
    using D N assms(2)
    by (simp add: snapshot_mean_def T assms(1) Let_def RP RV)
qed

lemma snapshot_mean_exact:
  assumes "py_get snapshot ''Particles'' (JList []) = Inr (JList ps)"
    and "filter validate_particle_data ps = qs" and "qs \<noteq> []"
    and "exact_coordinates ''Position'' qs" and "exact_coordinates ''Velocity'' qs"
  shows "snapshot_mean np_mean snapshot =
         Inr (Some (timestamp_of snapshot,
                    mean_vector ''Position'' qs, mean_vector ''Velocity'' qs))"
proof -
  from assms(2,3) have N: "filter validate_particle_data ps \<noteq> []"
    by simp
  show ?thesis
    by (simp only: snapshot_mean_list [OF assms(1) N] assms(2)
        mean_axis0_exact [OF assms(4)] mean_axis0_exact [OF assms(5)] sum.case)
qed

lemma snapshot_mean_no_valid:
  assumes "py_get snapshot ''Particles'' (JList []) = Inr (JList ps)"
    and "filter validate_particle_data ps = []"
  shows "snapshot_mean np_mean snapshot = Inr None"
proof -
  from assms(1) have D: "isinstance_dict snapshot"
    by (cases snapshot) simp_all
  have T: "py_get snapshot ''Timestamp'' (JInt 0) = Inr (timestamp_of snapshot)"
    using D by (simp add: py_get_lookup timestamp_of_def)
  show ?thesis
    using D by (simp add: snapshot_mean_def T assms Let_def)
qed

lemma snapshot_mean_timestamp:
  assumes "snapshot_mean np_mean s = Inr (Some (t, a, b))"
  shows "t = timestamp_of s"
proof (cases "isinstance_dict s")
  case False
  with assms show ?thesis by (simp add: snapshot_mean_def)
next
  case True
  then have T: "py_get s ''Timestamp'' (JInt 0) = Inr (timestamp_of s)"
    by (simp add: py_get_lookup timestamp_of_def)
  from True obtain particles where P: "py_get s ''Particles'' (JList []) = Inr particles"
    by (simp add: py_get_lookup)
  from assms True show ?thesis
    by (simp add: snapshot_mean_def T P Let_def split: if_splits sum.splits)
qed

lemma entries_Nil: "entries np_mean [] = []"
  by (simp add: entries_def map_filter_simps)

lemma entries_Cons:
  "entries np_mean (s # ss) =
     (case mean_entry np_mean s of
        None \<Rightarrow> entries np_mean ss
      | Some e \<Rightarrow> e # entries np_mean ss)"
  by (simp add: entries_def map_filter_simps split: option.splits)

lemma entries_filter:
  "entries np_mean ss =
     map (\<lambda>s. the (mean_entry np_mean s)) (filter (yields_mean np_mean) ss)"
  by (induction ss) (simp_all add: entries_Nil entries_Cons yields_mean_def split: option.splits)

lemma length_entries:
  "length (entries np_mean ss) = length (filter (yields_mean np_mean) ss)"
  by (simp add: entries_filter)

lemma mean_entry_yields:
  "yields_mean np_mean s \<Longrightarrow>
     snapshot_mean np_mean s = Inr (Some (the (mean_entry np_mean s)))"
  by (auto simp: yields_mean_def mean_entry_def split: option.splits sum.splits)

lemma loop_body_Inr:
  assumes "loop_body np_mean n i s acc = Inr acc'"
  shows "times acc' = times acc @ map fst (entries np_mean [s]) \<and>
         positions acc' = positions acc @ map (\<lambda>e. fst (snd e)) (entries np_mean [s]) \<and>
         velocities acc' = velocities acc @ map (\<lambda>e. snd (snd e)) (entries np_mean [s])"
proof (cases "snapshot_mean np_mean s")
  case (Inl e)
  with assms show ?thesis by (simp add: loop_body_def)
next
  case (Inr r)
  show ?thesis
  proof (cases r)
    case None
    with Inr assms show ?thesis
      by (simp add: loop_body_def entries_Cons entries_Nil mean_entry_def)
  next
    case (Some e)
    obtain t a b where E: "e = (t, a, b)" by (cases e) auto
    from Inr Some E assms show ?thesis
      by (auto simp: loop_body_def entries_Cons entries_Nil mean_entry_def Let_def
          split: if_splits sum.splits)
  qed
qed

lemma loop_entries:
  "loop np_mean n i ss acc = Inr acc' \<Longrightarrow>
     times acc' = times acc @ map fst (entries np_mean ss) \<and>
     positions acc' = positions acc @ map (\<lambda>e. fst (snd e)) (entries np_mean ss) \<and>
     velocities acc' = velocities acc @ map (\<lambda>e. snd (snd e)) (entries np_mean ss)"
proof (induction ss arbitrary: i acc)
  case Nil
  then show ?case by (simp add: entries_Nil)
next
  case (Cons s ss)
  from Cons.prems obtain mid where
    B: "loop_body np_mean n i s acc = Inr mid" and
    L: "loop np_mean n (Suc i) ss mid = Inr acc'"
    by (auto split: sum.splits)
  have E: "entries np_mean (s # ss) = entries np_mean [s] @ entries np_mean ss"
    by (simp add: entries_Cons entries_Nil split: option.splits)
  from loop_body_Inr [OF B] Cons.IH [OF L] show ?case
    by (simp add: E)
qed

lemma analyze_Some:
  assumes "analyze_flow_field np_ok np_mean data = Some r"
  shows "times r = map fst (entries np_mean data) \<and>
         positions r = map (\<lambda>e. fst (snd e)) (entries np_mean data) \<and>
         velocities r = map (\<lambda>e. snd (snd e)) (entries np_mean data) \<and>
         2 \<le> length (entries np_mean data) \<and> 2 \<le> length data"
proof -
  from assms have N: "2 \<le> length data"
    by (simp add: analyze_flow_field_def split: if_splits)
  from assms have L: "loop np_mean (length data) 0 data empty_series = Inr r"
    by (simp add: analyze_flow_field_def split: if_splits sum.splits)
  from assms L have T: "2 \<le> length (times r)"
    by (simp add: analyze_flow_field_def split: if_splits)
  from loop_entries [OF L] have
    E: "times r = map fst (entries np_mean data)"
       "positions r = map (\<lambda>e. fst (snd e)) (entries np_mean data)"
       "velocities r = map (\<lambda>e. snd (snd e)) (entries np_mean data)"
    by (simp_all add: empty_series_def)
  from T E(1) have "2 \<le> length (entries np_mean data)" by simp
  with E N show ?thesis by simp
qed

lemma zip3_entries:
  "zip (map fst es) (zip (map (\<lambda>e. fst (snd e)) es) (map (\<lambda>e. snd (snd e)) es)) = es"
  by (induction es) auto

section \<open>Records written out\<close>

lemma field2_particle_json:
  "field2 (particle_json px py pz vx vy vz t) ''Position'' ''X'' = Some px"
  "field2 (particle_json px py pz vx vy vz t) ''Position'' ''Y'' = Some py"
  "field2 (particle_json px py pz vx vy vz t) ''Position'' ''Z'' = Some pz"
  "field2 (particle_json px py pz vx vy vz t) ''Velocity'' ''X'' = Some vx"
  "field2 (particle_json px py pz vx vy vz t) ''Velocity'' ''Y'' = Some vy"
  "field2 (particle_json px py pz vx vy vz t) ''Velocity'' ''Z'' = Some vz"
  "lookup (particle_json px py pz vx vy vz t) ''Temperature'' = Some t"
  by (simp_all add: field2_def lookup_def particle_json_def)

lemma validate_particle_json:
  "validate_particle_data (particle_json px py pz vx vy vz t) \<longleftrightarrow>
     isinstance_int_float px \<and> isinstance_int_float py \<and> isinstance_int_float pz \<and>
     isinstance_int_float vx \<and> isinstance_int_float vy \<and> isinstance_int_float vz \<and>
     isinstance_int_float t"
  by (simp add: validate_passes field2_particle_json field_passes_Some)

lemma numeric_value_simps:
  "numeric_value (JBool b) = (if b then 1 else 0)"
  "numeric_value (JInt i) = of_int i"
  "numeric_value (JFloat (Finite r)) = r"
  by (simp_all add: numeric_value_def)

lemma coordinate_particle_json:
  "coordinate (particle_json px py pz vx vy vz t) ''Position'' ''X'' = numeric_value px"
  "coordinate (particle_json px py pz vx vy vz t) ''Position'' ''Y'' = numeric_value py"
  "coordinate (particle_json px py pz vx vy vz t) ''Position'' ''Z'' = numeric_value pz"
  "coordinate (particle_json px py pz vx vy vz t) ''Velocity'' ''X'' = numeric_value vx"
  "coordinate (particle_json px py pz vx vy vz t) ''Velocity'' ''Y'' = numeric_value vy"
  "coordinate (particle_json px py pz vx vy vz t) ''Velocity'' ''Z'' = numeric_value vz"
  by (simp_all add: coordinate_def field2_particle_json)

lemma finite_number_simps:
  "finite_number (Some (JBool b))"
  "finite_number (Some (JInt i))"
  "finite_number (Some (JFloat (Finite r)))"
  by (simp_all add: finite_number_def)

lemma snapshot_json_get:
  "py_get (snapshot_json t ps) ''Particles'' (JList []) = Inr (JList ps)"
  "timestamp_of (snapshot_json t ps) = t"
  by (simp_all add: snapshot_json_def timestamp_of_def lookup_def)

lemma exact_mean_0: "exact_mean [0]"
  using exact_mean_int [of 0] by simp

lemma exact_mean_1: "exact_mean [1]"
  using exact_mean_int [of 1] by simp

lemma snapshot_mean_scenario_particle:
  assumes "\<bar>x\<bar> \<le> 2 ^ 53"
  shows "snapshot_mean np_mean (snapshot_json t [scenario_particle x]) =
         Inr (Some (t, (Finite (of_int x), Finite 0, Finite 0), (Finite 1, Finite 0, Finite 0)))"
proof -
  have V: "validate_particle_data (scenario_particle x)"
    by (simp add: scenario_particle_def validate_particle_json)
  have EP: "exact_coordinates ''Position'' [scenario_particle x]"
    by (simp add: exact_coordinates_def scenario_particle_def field2_particle_json
        finite_number_simps coordinate_particle_json numeric_value_simps
        exact_mean_int [OF assms] exact_mean_0)
  have EV: "exact_coordinates ''Velocity'' [scenario_particle x]"
    by (simp add: exact_coordinates_def scenario_particle_def field2_particle_json
        finite_number_simps coordinate_particle_json numeric_value_simps
        exact_mean_0 exact_mean_1)
  have MP: "mean_vector ''Position'' [scenario_particle x] = (Finite (of_int x), Finite 0, Finite 0)"
    by (simp add: mean_vector_def arithmetic_mean_def scenario_particle_def
        coordinate_particle_json numeric_value_simps)
  have MV: "mean_vector ''Velocity'' [scenario_particle x] = (Finite 1, Finite 0, Finite 0)"
    by (simp add: mean_vector_def arithmetic_mean_def scenario_particle_def
        coordinate_particle_json numeric_value_simps)
  have F: "filter validate_particle_data [scenario_particle x] = [scenario_particle x]"
    by (simp add: V)
  from snapshot_mean_exact [OF snapshot_json_get(1) F _ EP EV, of np_mean t] show ?thesis
    by (simp add: MP MV snapshot_json_get)
qed

lemma snapshot_mean_no_particles:
  "snapshot_mean np_mean (snapshot_json t []) = Inr None"
  by (rule snapshot_mean_no_valid [OF snapshot_json_get(1)]) simp

lemma snapshot_mean_hot_particle:
  "snapshot_mean np_mean (snapshot_json t
     [particle_json (JInt 1) (JInt 0) (JInt 0) (JInt 1) (JInt 0) (JInt 0) (JStr ''hot'')]) =
   Inr None"
  by (rule snapshot_mean_no_valid [OF snapshot_json_get(1)])
     (simp add: validate_particle_json)

lemma analyze_out_of_order:
  "analyze_flow_field np_ok np_mean out_of_order_input =
     Some \<lparr>times = [JInt 5, JInt 3],
           velocities = [(Finite 1, Finite 0, Finite 0), (Finite 1, Finite 0, Finite 0)],
           positions = [(Finite 0, Finite 0, Finite 0), (Finite 1, Finite 0, Finite 0)]\<rparr>"
proof -
  have S0: "snapshot_mean np_mean (snapshot_json (JInt 5) [scenario_particle 0]) =
            Inr (Some (JInt 5, (Finite 0, Finite 0, Finite 0), (Finite 1, Finite 0, Finite 0)))"
    using snapshot_mean_scenario_particle [of 0 np_mean "JInt 5"] by simp
  have S1: "snapshot_mean np_mean (snapshot_json (JInt 3) [scenario_particle 1]) =
            Inr (Some (JInt 3, (Finite 1, Finite 0, Finite 0), (Finite 1, Finite 0, Finite 0)))"
    using snapshot_mean_scenario_particle [of 1 np_mean "JInt 3"] by simp
  show ?thesis
    by (simp add: analyze_flow_field_def out_of_order_input_def loop_body_def empty_series_def
        S0 S1 snapshot_mean_no_particles int_overflows_float_def)
qed

lemma yields_mean_one_valid_one_invalid:
  "filter (yields_mean np_mean) one_valid_one_invalid =
     [snapshot_json (JInt 0) [scenario_particle 0]]"
proof -
  have S0: "snapshot_mean np_mean (snapshot_json (JInt 0) [scenario_particle 0]) =
            Inr (Some (JInt 0, (Finite 0, Finite 0, Finite 0), (Finite 1, Finite 0, Finite 0)))"
    using snapshot_mean_scenario_particle [of 0 np_mean "JInt 0"] by simp
  show ?thesis
    by (simp add: one_valid_one_invalid_def yields_mean_def mean_entry_def S0
        snapshot_mean_hot_particle)
qed






section \<open>The claims\<close>

text \<open>
  Claim C2, as the code has it. \<^verbatim>\<open>validate_particle_data\<close> returns true exactly when
  \<^verbatim>\<open>Position.X/Y/Z\<close>, \<^verbatim>\<open>Velocity.X/Y/Z\<close> and \<^verbatim>\<open>Temperature\<close> are all present and each
  holds an \<^verbatim>\<open>int\<close>, a \<^verbatim>\<open>float\<close> or a \<^verbatim>\<open>bool\<close>; in particular it returns false for a
  particle that lacks one of the seven fields.
\<close>

theorem validate_iff_int_float_or_bool:
  "(validate_particle_data p \<longleftrightarrow>
      int_float_or_bool (field2 p ''Position'' ''X'') \<and>
      int_float_or_bool (field2 p ''Position'' ''Y'') \<and>
      int_float_or_bool (field2 p ''Position'' ''Z'') \<and>
      int_float_or_bool (field2 p ''Velocity'' ''X'') \<and>
      int_float_or_bool (field2 p ''Velocity'' ''Y'') \<and>
      int_float_or_bool (field2 p ''Velocity'' ''Z'') \<and>
      int_float_or_bool (lookup p ''Temperature'')) \<and>
   (field2 p ''Position'' ''X'' = None \<or> field2 p ''Position'' ''Y'' = None \<or>
    field2 p ''Position'' ''Z'' = None \<or> field2 p ''Velocity'' ''X'' = None \<or>
    field2 p ''Velocity'' ''Y'' = None \<or> field2 p ''Velocity'' ''Z'' = None \<or>
    lookup p ''Temperature'' = None
    \<longrightarrow> \<not> validate_particle_data p)"
proof -
  have K: "field_passes f = int_float_or_bool f" for f
  proof (cases f)
    case None
    then show ?thesis
      by (simp add: field_passes_def int_float_or_bool_def)
  next
    case (Some v)
    then show ?thesis
      by (cases v) (simp_all add: field_passes_def int_float_or_bool_def)
  qed
  have N: "\<not> int_float_or_bool None"
    by (simp add: int_float_or_bool_def)
  show ?thesis
    unfolding validate_passes K using N by auto
qed

theorem validate_iff_int_float_or_bool_witness:
  "validate_particle_data boolean_particle \<and>
   lookup no_temperature_particle ''Temperature'' = None \<and>
   \<not> validate_particle_data no_temperature_particle"
proof -
  have b: "int_float_or_bool (field2 boolean_particle ''Position'' ''X'') \<and>
      int_float_or_bool (field2 boolean_particle ''Position'' ''Y'') \<and>
      int_float_or_bool (field2 boolean_particle ''Position'' ''Z'') \<and>
      int_float_or_bool (field2 boolean_particle ''Velocity'' ''X'') \<and>
      int_float_or_bool (field2 boolean_particle ''Velocity'' ''Y'') \<and>
      int_float_or_bool (field2 boolean_particle ''Velocity'' ''Z'') \<and>
      int_float_or_bool (lookup boolean_particle ''Temperature'')"
    by (simp add: boolean_particle_def field2_particle_json int_float_or_bool_def)
  have h: "lookup no_temperature_particle ''Temperature'' = None"
    by (simp add: no_temperature_particle_def lookup_def)
  have run: "validate_particle_data boolean_particle"
    "\<not> validate_particle_data no_temperature_particle"
    by (simp_all add: validate_particle_data_def validate_body_def boolean_particle_def
        particle_json_def no_temperature_particle_def)
  from validate_iff_int_float_or_bool [of boolean_particle]
       validate_iff_int_float_or_bool [of no_temperature_particle] b h run
  show ?thesis
    by blast
qed

text \<open>
  Claim C2, as it is stated, with numeric read as a number, fails: a particle whose six
  coordinates are numbers and whose temperature is \<^verbatim>\<open>true\<close> is accepted, although its
  temperature is no number.
\<close>

theorem validate_not_iff_number:
  "validate_particle_data
     (particle_json (JInt 0) (JInt 0) (JInt 0) (JInt 1) (JInt 0) (JInt 0) (JBool True)) \<and>
   \<not> json_number
     (lookup (particle_json (JInt 0) (JInt 0) (JInt 0) (JInt 1) (JInt 0) (JInt 0) (JBool True))
        ''Temperature'') \<and>
   \<not> seven_fields_number
     (particle_json (JInt 0) (JInt 0) (JInt 0) (JInt 1) (JInt 0) (JInt 0) (JBool True))"
  by (simp add: validate_particle_data_def validate_body_def particle_json_def
      seven_fields_number_def json_number_def lookup_def)

text \<open>
  Claim C3. \<^verbatim>\<open>analyze_flow_field\<close> returns no series whenever the input has fewer than two
  snapshots, and whenever fewer than two of its snapshots yield a mean.
\<close>

theorem insufficient_data_no_series:
  assumes "length data < 2 \<or> length (filter (yields_mean np_mean) data) < 2"
  shows "analyze_flow_field np_ok np_mean data = None"
proof (cases "analyze_flow_field np_ok np_mean data")
  case None
  then show ?thesis .
next
  case (Some r)
  from analyze_Some [OF Some] have "2 \<le> length (entries np_mean data)" "2 \<le> length data"
    by simp_all
  with assms show ?thesis
    by (simp add: length_entries)
qed

theorem insufficient_data_no_series_witness:
  "(length [snapshot_json (JInt 0) [scenario_particle 0]] < 2 \<and>
    analyze_flow_field (\<lambda>ts. True) (\<lambda>rows. Inl ValueError)
      [snapshot_json (JInt 0) [scenario_particle 0]] = None) \<and>
   (\<not> length one_valid_one_invalid < 2 \<and>
    length (filter (yields_mean (\<lambda>rows. Inl ValueError)) one_valid_one_invalid) < 2 \<and>
    analyze_flow_field (\<lambda>ts. True) (\<lambda>rows. Inl ValueError) one_valid_one_invalid = None)"
proof -
  let ?d1 = "[snapshot_json (JInt 0) [scenario_particle 0]]"
  let ?np = "\<lambda>rows :: row list. (Inl ValueError :: py_error + vec3)"
  have h1: "length ?d1 < 2 \<or> length (filter (yields_mean ?np) ?d1) < 2"
    by simp
  have h2: "length (filter (yields_mean ?np) one_valid_one_invalid) < 2"
    by (simp add: yields_mean_one_valid_one_invalid)
  then have h2': "length one_valid_one_invalid < 2 \<or>
                  length (filter (yields_mean ?np) one_valid_one_invalid) < 2"
    by simp
  have n2: "\<not> length one_valid_one_invalid < 2"
    by (simp add: one_valid_one_invalid_def)
  from insufficient_data_no_series [OF h1, of "\<lambda>ts. True"]
       insufficient_data_no_series [OF h2', of "\<lambda>ts. True"] h2 n2
  show ?thesis by simp
qed

text \<open>
  Claim C4. Whenever \<^verbatim>\<open>analyze_flow_field\<close> returns a series, its times, positions and
  velocities have the same length, that length is at least two, and index for index the
  three hold the timestamp, the mean position and the mean velocity that one and the same
  snapshot contributed.
\<close>

theorem series_lengths_aligned:
  assumes "analyze_flow_field np_ok np_mean data = Some r"
  shows "length (times r) = length (positions r) \<and>
         length (times r) = length (velocities r) \<and>
         2 \<le> length (times r) \<and>
         length (times r) = length (filter (yields_mean np_mean) data) \<and>
         (\<forall>i < length (times r).
            snapshot_mean np_mean (filter (yields_mean np_mean) data ! i) =
            Inr (Some (times r ! i, positions r ! i, velocities r ! i)))"
proof -
  from analyze_Some [OF assms] have
    E: "times r = map fst (entries np_mean data)"
       "positions r = map (\<lambda>e. fst (snd e)) (entries np_mean data)"
       "velocities r = map (\<lambda>e. snd (snd e)) (entries np_mean data)"
    and N: "2 \<le> length (entries np_mean data)"
    by simp_all
  have A: "snapshot_mean np_mean (filter (yields_mean np_mean) data ! i) =
           Inr (Some (times r ! i, positions r ! i, velocities r ! i))"
    if "i < length (times r)" for i
  proof -
    from that have I: "i < length (filter (yields_mean np_mean) data)"
      by (simp add: E length_entries)
    then have "filter (yields_mean np_mean) data ! i \<in> set (filter (yields_mean np_mean) data)"
      by (rule nth_mem)
    then have Y: "yields_mean np_mean (filter (yields_mean np_mean) data ! i)"
      by simp
    from I have "entries np_mean data ! i =
        the (mean_entry np_mean (filter (yields_mean np_mean) data ! i))"
      by (simp add: entries_filter)
    with mean_entry_yields [OF Y] I show ?thesis
      by (simp add: E length_entries)
  qed
  from E N A show ?thesis
    by (simp add: length_entries)
qed

theorem series_lengths_aligned_witness:
  "analyze_flow_field (\<lambda>ts. False) (\<lambda>rows. Inl ValueError) out_of_order_input =
     Some \<lparr>times = [JInt 5, JInt 3],
           velocities = [(Finite 1, Finite 0, Finite 0), (Finite 1, Finite 0, Finite 0)],
           positions = [(Finite 0, Finite 0, Finite 0), (Finite 1, Finite 0, Finite 0)]\<rparr> \<and>
   snapshot_mean (\<lambda>rows. Inl ValueError)
       (filter (yields_mean (\<lambda>rows. Inl ValueError)) out_of_order_input ! 1) =
     Inr (Some (JInt 3, (Finite 1, Finite 0, Finite 0), (Finite 1, Finite 0, Finite 0)))"
proof -
  let ?np = "\<lambda>rows :: row list. (Inl ValueError :: py_error + vec3)"
  let ?r = "\<lparr>times = [JInt 5, JInt 3],
             velocities = [(Finite 1, Finite 0, Finite 0), (Finite 1, Finite 0, Finite 0)],
             positions = [(Finite 0, Finite 0, Finite 0), (Finite 1, Finite 0, Finite 0)]\<rparr>"
  have h: "analyze_flow_field (\<lambda>ts. False) ?np out_of_order_input = Some ?r"
    by (rule analyze_out_of_order)
  from series_lengths_aligned [OF h] have
    "\<forall>i < length (times ?r).
       snapshot_mean ?np (filter (yields_mean ?np) out_of_order_input ! i) =
       Inr (Some (times ?r ! i, positions ?r ! i, velocities ?r ! i))"
    by blast
  then have "snapshot_mean ?np (filter (yields_mean ?np) out_of_order_input ! 1) =
       Inr (Some (times ?r ! 1, positions ?r ! 1, velocities ?r ! 1))"
    by simp
  with h show ?thesis
    by simp
qed

text \<open>
  Claim C5. A snapshot whose particle list is empty, or holds no particle that passes
  validation, is skipped: the loop body leaves the three lists as they are, the loop goes
  on with the next snapshot, and the triples collected from a sequence are those collected
  from the sequence without that snapshot.
\<close>

theorem empty_or_invalid_snapshot_skipped:
  assumes "py_get snapshot ''Particles'' (JList []) = Inr (JList ps)"
    and "ps = [] \<or> (\<forall>p \<in> set ps. \<not> validate_particle_data p)"
  shows "snapshot_mean np_mean snapshot = Inr None \<and>
         loop_body np_mean n i snapshot acc = Inr acc \<and>
         loop np_mean n i (snapshot # rest) acc = loop np_mean n (Suc i) rest acc \<and>
         entries np_mean (before @ snapshot # rest) = entries np_mean (before @ rest)"
proof -
  from assms(2) have F: "filter validate_particle_data ps = []"
    by (auto simp: filter_empty_conv)
  have S: "snapshot_mean np_mean snapshot = Inr None"
    using assms(1) F by (rule snapshot_mean_no_valid)
  have B: "loop_body np_mean n i snapshot acc = Inr acc"
    by (simp add: loop_body_def S)
  have M: "mean_entry np_mean snapshot = None"
    by (simp add: mean_entry_def S)
  have E: "entries np_mean (before @ snapshot # rest) = entries np_mean (before @ rest)"
    by (induction before) (simp_all add: entries_Cons M split: option.splits)
  from S B E show ?thesis
    by simp
qed

theorem empty_or_invalid_snapshot_skipped_witness:
  "(loop_body (\<lambda>rows. Inl ValueError) 3 1 (snapshot_json (JInt 9) []) empty_series =
      Inr empty_series \<and>
    entries (\<lambda>rows. Inl ValueError)
      ([snapshot_json (JInt 5) [scenario_particle 0]] @
       snapshot_json (JInt 9) [] # [snapshot_json (JInt 3) [scenario_particle 1]]) =
    entries (\<lambda>rows. Inl ValueError)
      ([snapshot_json (JInt 5) [scenario_particle 0]] @
       [snapshot_json (JInt 3) [scenario_particle 1]])) \<and>
   (\<not> validate_particle_data
        (particle_json (JInt 1) (JInt 0) (JInt 0) (JInt 1) (JInt 0) (JInt 0) (JStr ''hot'')) \<and>
    snapshot_mean (\<lambda>rows. Inl ValueError) (snapshot_json (JInt 1)
        [particle_json (JInt 1) (JInt 0) (JInt 0) (JInt 1) (JInt 0) (JInt 0) (JStr ''hot'')]) =
    Inr None)"
proof -
  let ?np = "\<lambda>rows :: row list. (Inl ValueError :: py_error + vec3)"
  let ?hot = "particle_json (JInt 1) (JInt 0) (JInt 0) (JInt 1) (JInt 0) (JInt 0) (JStr ''hot'')"
  have g1: "py_get (snapshot_json (JInt 9) []) ''Particles'' (JList []) = Inr (JList [])"
    by (rule snapshot_json_get(1))
  have h1: "[] = [] \<or> (\<forall>p \<in> set ([] :: json list). \<not> validate_particle_data p)"
    by simp
  have g2: "py_get (snapshot_json (JInt 1) [?hot]) ''Particles'' (JList []) = Inr (JList [?hot])"
    by (rule snapshot_json_get(1))
  have v: "\<not> validate_particle_data ?hot"
    by (simp add: validate_particle_json)
  then have h2: "[?hot] = [] \<or> (\<forall>p \<in> set [?hot]. \<not> validate_particle_data p)"
    by simp
  from empty_or_invalid_snapshot_skipped [OF g1 h1, of ?np 3 1 empty_series
         "[snapshot_json (JInt 3) [scenario_particle 1]]"
         "[snapshot_json (JInt 5) [scenario_particle 0]]"]
       empty_or_invalid_snapshot_skipped [OF g2 h2, of ?np 3 1 empty_series "[]" "[]"] v
  show ?thesis
    by simp
qed

text \<open>
  Claim C6. \<^verbatim>\<open>load_simulation_data\<close> returns nothing when opening or parsing raised, when
  the top level of the document is no list, and when it is the empty list; for a non-empty
  list it returns that list as parsed, whatever its elements are. These are the only
  successes.
\<close>

theorem loader_contract:
  "load_simulation_data (Inl e) = None \<and>
   (\<not> isinstance_list v \<longrightarrow> load_simulation_data (Inr v) = None) \<and>
   load_simulation_data (Inr (JList [])) = None \<and>
   (snapshots \<noteq> [] \<longrightarrow> load_simulation_data (Inr (JList snapshots)) = Some snapshots) \<and>
   (load_simulation_data parsed = Some out \<longleftrightarrow> parsed = Inr (JList out) \<and> out \<noteq> [])"
proof -
  have 1: "\<not> isinstance_list v \<Longrightarrow> load_simulation_data (Inr v) = None"
    by (cases v) (simp_all add: load_simulation_data_def)
  have 2: "(load_simulation_data parsed = Some out) = (parsed = Inr (JList out) \<and> out \<noteq> [])"
    by (auto simp: load_simulation_data_def split: sum.splits json.splits if_splits)
  from 1 2 show ?thesis
    by (simp add: load_simulation_data_def)
qed

theorem loader_contract_witness:
  "\<not> isinstance_list (JDict []) \<and>
   load_simulation_data (Inr (JDict [])) = None \<and>
   [snapshot_json (JInt 0) [JStr ''junk'']] \<noteq> [] \<and>
   load_simulation_data (Inr (JList [snapshot_json (JInt 0) [JStr ''junk'']])) =
     Some [snapshot_json (JInt 0) [JStr ''junk'']]"
  using loader_contract [of ValueError "JDict []" "[snapshot_json (JInt 0) [JStr ''junk'']]"
      "Inr (JList [])" "[]"]
  by simp

text \<open>
  Claim C7. The triples of a returned series are those of the snapshots that yield a mean,
  in the order in which these snapshots stand in the input. Nothing is sorted: the times
  are the timestamps of these snapshots as they come, so timestamps that are out of order
  in the input are out of order in the output.
\<close>

theorem order_preserved:
  assumes "analyze_flow_field np_ok np_mean data = Some r"
  shows "zip (times r) (zip (positions r) (velocities r)) =
           map (\<lambda>s. the (mean_entry np_mean s)) (filter (yields_mean np_mean) data) \<and>
         times r = map timestamp_of (filter (yields_mean np_mean) data)"
proof -
  from analyze_Some [OF assms] have
    E: "times r = map fst (entries np_mean data)"
       "positions r = map (\<lambda>e. fst (snd e)) (entries np_mean data)"
       "velocities r = map (\<lambda>e. snd (snd e)) (entries np_mean data)"
    by simp_all
  have Z: "zip (times r) (zip (positions r) (velocities r)) = entries np_mean data"
    by (simp add: E zip3_entries)
  have T: "fst (the (mean_entry np_mean s)) = timestamp_of s" if "yields_mean np_mean s" for s
  proof -
    obtain t a b where P: "the (mean_entry np_mean s) = (t, a, b)"
      by (cases "the (mean_entry np_mean s)") auto
    from mean_entry_yields [OF that] P have "snapshot_mean np_mean s = Inr (Some (t, a, b))"
      by simp
    from snapshot_mean_timestamp [OF this] P show ?thesis
      by simp
  qed
  have "map fst (entries np_mean data) = map timestamp_of (filter (yields_mean np_mean) data)"
    by (simp add: entries_filter T)
  with Z E(1) show ?thesis
    by (simp add: entries_filter)
qed

theorem order_preserved_witness:
  "map timestamp_of out_of_order_input = [JInt 5, JInt 9, JInt 3] \<and>
   analyze_flow_field (\<lambda>ts. False) (\<lambda>rows. Inl ValueError) out_of_order_input =
     Some \<lparr>times = [JInt 5, JInt 3],
           velocities = [(Finite 1, Finite 0, Finite 0), (Finite 1, Finite 0, Finite 0)],
           positions = [(Finite 0, Finite 0, Finite 0), (Finite 1, Finite 0, Finite 0)]\<rparr> \<and>
   [JInt 5, JInt 3] =
     map timestamp_of (filter (yields_mean (\<lambda>rows. Inl ValueError)) out_of_order_input)"
proof -
  let ?np = "\<lambda>rows :: row list. (Inl ValueError :: py_error + vec3)"
  let ?r = "\<lparr>times = [JInt 5, JInt 3],
             velocities = [(Finite 1, Finite 0, Finite 0), (Finite 1, Finite 0, Finite 0)],
             positions = [(Finite 0, Finite 0, Finite 0), (Finite 1, Finite 0, Finite 0)]\<rparr>"
  have h: "analyze_flow_field (\<lambda>ts. False) ?np out_of_order_input = Some ?r"
    by (rule analyze_out_of_order)
  have t: "map timestamp_of out_of_order_input = [JInt 5, JInt 9, JInt 3]"
    by (simp add: out_of_order_input_def snapshot_json_get)
  from order_preserved [OF h] h t show ?thesis
    by simp
qed

text \<open>
  Claim C8. For the two snapshots with timestamps 0 and 1, each with one particle of
  temperature 300 and velocity \<open>(1, 0, 0)\<close>, at positions \<open>(0, 0, 0)\<close> and \<open>(1, 0, 0)\<close>,
  \<^verbatim>\<open>analyze_flow_field\<close> returns the times \<open>[0, 1]\<close>, the positions
  \<open>[(0, 0, 0), (1, 0, 0)]\<close> and the velocities \<open>[(1, 0, 0), (1, 0, 0)]\<close>.
\<close>

theorem scenario_two_snapshots:
  "analyze_flow_field np_ok np_mean
     [snapshot_json (JInt 0)
        [particle_json (JInt 0) (JInt 0) (JInt 0) (JInt 1) (JInt 0) (JInt 0) (JInt 300)],
      snapshot_json (JInt 1)
        [particle_json (JInt 1) (JInt 0) (JInt 0) (JInt 1) (JInt 0) (JInt 0) (JInt 300)]] =
   Some \<lparr>times = [JInt 0, JInt 1],
         velocities = [(Finite 1, Finite 0, Finite 0), (Finite 1, Finite 0, Finite 0)],
         positions = [(Finite 0, Finite 0, Finite 0), (Finite 1, Finite 0, Finite 0)]\<rparr>"
proof -
  have S0: "snapshot_mean np_mean (snapshot_json (JInt 0)
             [particle_json (JInt 0) (JInt 0) (JInt 0) (JInt 1) (JInt 0) (JInt 0) (JInt 300)]) =
           Inr (Some (JInt 0, (Finite 0, Finite 0, Finite 0), (Finite 1, Finite 0, Finite 0)))"
    using snapshot_mean_scenario_particle [of 0 np_mean "JInt 0"]
    by (simp add: scenario_particle_def)
  have S1: "snapshot_mean np_mean (snapshot_json (JInt 1)
             [particle_json (JInt 1) (JInt 0) (JInt 0) (JInt 1) (JInt 0) (JInt 0) (JInt 300)]) =
           Inr (Some (JInt 1, (Finite 1, Finite 0, Finite 0), (Finite 1, Finite 0, Finite 0)))"
    using snapshot_mean_scenario_particle [of 1 np_mean "JInt 1"]
    by (simp add: scenario_particle_def)
  show ?thesis
    by (simp add: analyze_flow_field_def loop_body_def empty_series_def S0 S1
        int_overflows_float_def)
qed



end
